theory Spec2Isabelle
  imports Complex_Main "HOL-Library.AList"
begin

section \<open>JavaScript values and objects\<close>

text \<open>
  A document id of the store is the pair of its table and a serial number
  (\<open>Id<"projects">\<close> in the source is an id whose table is \<open>projects\<close>).
  JavaScript numbers are modelled as exact rationals: rounding, NaN and the
  infinities of IEEE doubles are outside the model.
\<close>

type_synonym docid = "string \<times> nat"

datatype jsval =
    JUndefined
  | JNull
  | JBool bool
  | JNum rat
  | JBigInt int
  | JStr string
  | JId docid
  | JArr "jsval list"
  | JObj "(string \<times> jsval) list"

type_synonym obj = "(string \<times> jsval) list"

text \<open>\<open>o[k]\<close>: reading a property that is absent gives \<open>undefined\<close>.\<close>

definition get_field :: "obj \<Rightarrow> string \<Rightarrow> jsval" where
  "get_field ob k = (case map_of ob k of None \<Rightarrow> JUndefined | Some v \<Rightarrow> v)"

text \<open>\<open>o[k] = v\<close>: an existing property keeps its position, a new one is appended.\<close>

definition set_field :: "obj \<Rightarrow> string \<Rightarrow> jsval \<Rightarrow> obj" where
  "set_field ob k v = AList.update k v ob"

text \<open>\<open>{...a, ...b}\<close>\<close>

definition spread :: "obj \<Rightarrow> obj \<Rightarrow> obj" where
  "spread a b = foldl (\<lambda>acc (k, v). set_field acc k v) a b"

text \<open>\<open>const {k1, k2, ...rest} = a\<close>\<close>

definition rest_without :: "string list \<Rightarrow> obj \<Rightarrow> obj" where
  "rest_without ks a = filter (\<lambda>(k, v). k \<notin> set ks) a"

definition Object_keys :: "obj \<Rightarrow> string list" where
  "Object_keys ob = map fst ob"

fun truthy :: "jsval \<Rightarrow> bool" where
  "truthy JUndefined = False"
| "truthy JNull = False"
| "truthy (JBool b) = b"
| "truthy (JNum r) = (r \<noteq> 0)"
| "truthy (JBigInt i) = (i \<noteq> 0)"
| "truthy (JStr s) = (s \<noteq> [])"
| "truthy (JId i) = True"
| "truthy (JArr xs) = True"
| "truthy (JObj ob) = True"

fun is_number :: "jsval \<Rightarrow> bool" where
  "is_number (JNum r) = True"
| "is_number v = False"

section \<open>The record store\<close>

text \<open>
  Every \<open>throw new Error(msg)\<close> of the source is \<open>Error msg\<close>; a failure of the
  store itself is \<open>StoreError\<close>; \<open>TypeError\<close> is what \<open>JSON.stringify\<close> raises on a
  BigInt; \<open>ArgumentValidationError\<close> is the rejection of a mutation's arguments by
  its \<open>args\<close> validator.
\<close>

datatype error = Error string | StoreError | TypeError | ArgumentValidationError

datatype dbop = DbGet | DbQuery | DbInsert | DbPatch | DbDelete

text \<open>
  The store holds the documents of all tables in creation order. \<open>faults\<close> says
  which operations on which tables currently fail (an infrastructure failure).
  \<open>trace\<close> is a history variable that no operation reads: it lists, oldest
  first, the writes performed on the store and the invocations of the
  recalculation service.
\<close>

datatype event = Inserted docid | Patched docid | Deleted docid | Recalculated docid

record db =
  docs :: "(docid \<times> obj) list"
  nextId :: nat
  faults :: "(dbop \<times> string) set"
  trace :: "event list"

definition table_docs :: "db \<Rightarrow> string \<Rightarrow> obj list" where
  "table_docs d tbl = map snd (filter (\<lambda>(i, ob). fst i = tbl) (docs d))"

definition lookup_doc :: "db \<Rightarrow> docid \<Rightarrow> obj option" where
  "lookup_doc d i = map_of (docs d) i"

text \<open>\<open>ctx.db.get(id)\<close>\<close>

definition db_get :: "db \<Rightarrow> docid \<Rightarrow> error + obj option" where
  "db_get d i = (if (DbGet, fst i) \<in> faults d then Inl StoreError else Inr (lookup_doc d i))"


text \<open>\<open>ctx.db.query(tbl).withIndex(name, q => q.eq(field, v)).collect()\<close>\<close>

definition db_query_eq :: "db \<Rightarrow> string \<Rightarrow> string \<Rightarrow> jsval \<Rightarrow> error + obj list" where
  "db_query_eq d tbl field v =
     (if (DbQuery, tbl) \<in> faults d then Inl StoreError
      else Inr (filter (\<lambda>ob. get_field ob field = v) (table_docs d tbl)))"

text \<open>Fields whose value is \<open>undefined\<close> are not stored.\<close>

definition strip_undefined :: "obj \<Rightarrow> obj" where
  "strip_undefined ob = filter (\<lambda>(k, v). v \<noteq> JUndefined) ob"

text \<open>\<open>ctx.db.insert(tbl, flds)\<close>: the new document gets a fresh id.\<close>

definition db_insert :: "db \<Rightarrow> string \<Rightarrow> obj \<Rightarrow> rat \<Rightarrow> error + (db \<times> docid)" where
  "db_insert d tbl flds now =
     (if (DbInsert, tbl) \<in> faults d then Inl StoreError
      else
        let i = (tbl, nextId d);
            doc = [(''_id'', JId i), (''_creationTime'', JNum now)] @ strip_undefined flds
        in Inr (d\<lparr>docs := docs d @ [(i, doc)],
                  nextId := Suc (nextId d),
                  trace := trace d @ [Inserted i]\<rparr>, i))"

text \<open>
  \<open>ctx.db.patch(id, flds)\<close>: a shallow merge; a field patched to \<open>undefined\<close> is
  removed. Patching a document that does not exist fails.
\<close>

definition patch_doc :: "obj \<Rightarrow> obj \<Rightarrow> obj" where
  "patch_doc ob flds =
     foldl (\<lambda>acc (k, v). if v = JUndefined then AList.delete k acc else AList.update k v acc)
       ob flds"

definition db_patch :: "db \<Rightarrow> docid \<Rightarrow> obj \<Rightarrow> error + db" where
  "db_patch d i flds =
     (if (DbPatch, fst i) \<in> faults d then Inl StoreError
      else case lookup_doc d i of
        None \<Rightarrow> Inl StoreError
      | Some old \<Rightarrow>
          Inr (d\<lparr>docs := map (\<lambda>(j, ob). if j = i then (j, patch_doc ob flds) else (j, ob)) (docs d),
                  trace := trace d @ [Patched i]\<rparr>))"


section \<open>Recalculation of a project's metrics (lib/projectAggregation)\<close>

record tally =
  completed :: nat
  delayed :: nat
  onTrack :: nat

record metrics = tally +
  breakdownsCount :: nat

text \<open>The callback of \<open>breakdowns.reduce\<close>.\<close>

definition countStatus :: "tally \<Rightarrow> obj \<Rightarrow> tally" where
  "countStatus acc breakdown =
     (let status = get_field breakdown ''status'' in
      if status = JStr ''completed'' then acc\<lparr>completed := completed acc + 1\<rparr>
      else if status = JStr ''delayed'' then acc\<lparr>delayed := delayed acc + 1\<rparr>
      else if status = JStr ''ongoing'' then acc\<lparr>onTrack := onTrack acc + 1\<rparr>
      else acc)"

definition metricsPatch :: "nat \<Rightarrow> nat \<Rightarrow> nat \<Rightarrow> rat \<Rightarrow> docid \<Rightarrow> obj" where
  "metricsPatch c dl t now userId =
     [(''projectCompleted'', JNum (of_nat c)),
      (''projectDelayed'', JNum (of_nat dl)),
      (''projectsOnTrack'', JNum (of_nat t)),
      (''updatedAt'', JNum now),
      (''updatedBy'', JId userId)]"

definition recalculateProjectMetrics ::
    "db \<Rightarrow> docid \<Rightarrow> docid \<Rightarrow> rat \<Rightarrow> error + (db \<times> metrics)" where
  "recalculateProjectMetrics d0 projectId userId now =
     (let d = d0\<lparr>trace := trace d0 @ [Recalculated projectId]\<rparr> in
      case db_query_eq d ''govtProjectBreakdowns'' ''projectId'' (JId projectId) of
        Inl e \<Rightarrow> Inl e
      | Inr breakdowns \<Rightarrow>
          if length breakdowns = 0 then
            (case db_patch d projectId (metricsPatch 0 0 0 now userId) of
               Inl e \<Rightarrow> Inl e
             | Inr d' \<Rightarrow>
                 Inr (d', \<lparr>completed = 0, delayed = 0, onTrack = 0, breakdownsCount = 0\<rparr>))
          else
            let aggregated = foldl countStatus \<lparr>completed = 0, delayed = 0, onTrack = 0\<rparr> breakdowns
            in (case db_patch d projectId
                       (metricsPatch (completed aggregated) (delayed aggregated) (onTrack aggregated)
                          now userId) of
                  Inl e \<Rightarrow> Inl e
                | Inr d' \<Rightarrow>
                    Inr (d', \<lparr>completed = completed aggregated, delayed = delayed aggregated,
                              onTrack = onTrack aggregated,
                              breakdownsCount = length breakdowns\<rparr>)))"

text \<open>The children of a project: all breakdowns whose \<open>projectId\<close> is the project.\<close>

definition childrenOf :: "db \<Rightarrow> docid \<Rightarrow> obj list" where
  "childrenOf d p =
     filter (\<lambda>ob. get_field ob ''projectId'' = JId p) (table_docs d ''govtProjectBreakdowns'')"

definition withStatus :: "string \<Rightarrow> obj list \<Rightarrow> nat" where
  "withStatus s obs = length (filter (\<lambda>ob. get_field ob ''status'' = JStr s) obs)"

definition recognizedStatus :: "obj \<Rightarrow> bool" where
  "recognizedStatus ob =
     (get_field ob ''status'' = JStr ''completed'' \<or>
      get_field ob ''status'' = JStr ''delayed'' \<or>
      get_field ob ''status'' = JStr ''ongoing'')"

text \<open>The three counters stored in a project document.\<close>

definition storedCounters :: "db \<Rightarrow> docid \<Rightarrow> (jsval \<times> jsval \<times> jsval) option" where
  "storedCounters d p =
     (case lookup_doc d p of
        None \<Rightarrow> None
      | Some ob \<Rightarrow> Some (get_field ob ''projectCompleted'', get_field ob ''projectDelayed'',
                          get_field ob ''projectsOnTrack''))"


section \<open>Insertion-ordered sets\<close>

text \<open>
  A JavaScript \<open>Set\<close> keeps its elements in the order of their first insertion:
  \<open>set.add(x)\<close> and \<open>new Set(iterable)\<close>.
\<close>

definition Set_add :: "'a list \<Rightarrow> 'a \<Rightarrow> 'a list" where
  "Set_add s x = (if x \<in> set s then s else s @ [x])"

definition Set_from :: "'a list \<Rightarrow> 'a list" where
  "Set_from xs = foldl Set_add [] xs"

section \<open>JSON.stringify\<close>

text \<open>
  The decimal text of a natural number and of an integer. A number that is not
  an integer is written as its reduced fraction, which stands for the shortest
  decimal text that JavaScript prints: the text is the same exactly when the
  number is. The text of a document id is its table and serial number.
\<close>

function digitsOf :: "nat \<Rightarrow> string" where
  "digitsOf n =
     (if n < 10 then [char_of (48 + n)]
      else digitsOf (n div 10) @ [char_of (48 + n mod 10)])"
  by pat_completeness auto
termination
  by (relation "measure id") auto


definition showInt :: "int \<Rightarrow> string" where
  "showInt i = (if i < 0 then ''-'' @ digitsOf (nat (- i)) else digitsOf (nat i))"

definition Number_toString :: "rat \<Rightarrow> string" where
  "Number_toString r =
     (case quotient_of r of (p, q) \<Rightarrow>
        if q = 1 then showInt p else showInt p @ ''/'' @ showInt q)"

definition idText :: "docid \<Rightarrow> string" where
  "idText i = fst i @ '':'' @ digitsOf (snd i)"

definition hexDigit :: "nat \<Rightarrow> char" where
  "hexDigit n = (if n < 10 then char_of (48 + n) else char_of (87 + n))"

text \<open>The escapes of a JSON string: quote, backslash and the control characters.\<close>

definition quoteChar :: "char \<Rightarrow> string" where
  "quoteChar c =
     (if c = CHR 0x22 then [CHR 0x5C, CHR 0x22]
      else if c = CHR 0x5C then [CHR 0x5C, CHR 0x5C]
      else if c = CHR 0x08 then [CHR 0x5C, CHR ''b'']
      else if c = CHR 0x0C then [CHR 0x5C, CHR ''f'']
      else if c = CHR 0x0A then [CHR 0x5C, CHR ''n'']
      else if c = CHR 0x0D then [CHR 0x5C, CHR ''r'']
      else if c = CHR 0x09 then [CHR 0x5C, CHR ''t'']
      else if (of_char c :: nat) < 32 then
        [CHR 0x5C, CHR ''u'', CHR ''0'', CHR ''0'',
         hexDigit ((of_char c :: nat) div 16), hexDigit ((of_char c :: nat) mod 16)]
      else [c])"

definition quoteJSONString :: "string \<Rightarrow> string" where
  "quoteJSONString s = [CHR 0x22] @ concat (map quoteChar s) @ [CHR 0x22]"

fun joinWith :: "string \<Rightarrow> string list \<Rightarrow> string" where
  "joinWith sep [] = []"
| "joinWith sep [x] = x"
| "joinWith sep (x # y # ys) = x @ sep @ joinWith sep (y # ys)"

text \<open>
  \<open>JSON.stringify(v)\<close>: \<open>undefined\<close> has no text (the result is \<open>undefined\<close>, here
  \<open>None\<close>), is written \<open>null\<close> inside an array and is left out of an object; a
  BigInt raises a TypeError.
\<close>

fun JSON_stringify :: "jsval \<Rightarrow> error + string option"
  and stringify_items :: "jsval list \<Rightarrow> error + string list"
  and stringify_props :: "(string \<times> jsval) list \<Rightarrow> error + string list" where
  "JSON_stringify JUndefined = Inr None"
| "JSON_stringify JNull = Inr (Some ''null'')"
| "JSON_stringify (JBool b) = Inr (Some (if b then ''true'' else ''false''))"
| "JSON_stringify (JNum r) = Inr (Some (Number_toString r))"
| "JSON_stringify (JBigInt i) = Inl TypeError"
| "JSON_stringify (JStr s) = Inr (Some (quoteJSONString s))"
| "JSON_stringify (JId i) = Inr (Some (quoteJSONString (idText i)))"
| "JSON_stringify (JArr xs) =
     (case stringify_items xs of
        Inl e \<Rightarrow> Inl e
      | Inr ss \<Rightarrow> Inr (Some (''['' @ joinWith '','' ss @ '']'')))"
| "JSON_stringify (JObj ps) =
     (case stringify_props ps of
        Inl e \<Rightarrow> Inl e
      | Inr ss \<Rightarrow> Inr (Some (''{'' @ joinWith '','' ss @ ''}'')))"
| "stringify_items [] = Inr []"
| "stringify_items (x # xs) =
     (case JSON_stringify x of
        Inl e \<Rightarrow> Inl e
      | Inr s \<Rightarrow>
          (case stringify_items xs of
             Inl e \<Rightarrow> Inl e
           | Inr ss \<Rightarrow> Inr ((case s of None \<Rightarrow> ''null'' | Some t \<Rightarrow> t) # ss)))"
| "stringify_props [] = Inr []"
| "stringify_props ((k, v) # ps) =
     (case JSON_stringify v of
        Inl e \<Rightarrow> Inl e
      | Inr s \<Rightarrow>
          (case stringify_props ps of
             Inl e \<Rightarrow> Inl e
           | Inr ss \<Rightarrow>
               Inr (case s of None \<Rightarrow> ss | Some t \<Rightarrow> (quoteJSONString k @ '':'' @ t) # ss)))"

text \<open>\<open>x ? JSON.stringify(x) : undefined\<close> for an optional object \<open>x\<close>.\<close>

definition stringifyOpt :: "obj option \<Rightarrow> error + jsval" where
  "stringifyOpt x =
     (case x of
        None \<Rightarrow> Inr JUndefined
      | Some ob \<Rightarrow>
          (case JSON_stringify (JObj ob) of
             Inl e \<Rightarrow> Inl e
           | Inr None \<Rightarrow> Inr JUndefined
           | Inr (Some t) \<Rightarrow> Inr (JStr t)))"

text \<open>\<open>a || b\<close>\<close>

definition js_or :: "jsval \<Rightarrow> jsval \<Rightarrow> jsval" where
  "js_or a b = (if truthy a then a else b)"

section \<open>The project activity logger (lib/projectActivityLogger)\<close>

datatype log_action = Created | Updated | Deleted_action | Restored

fun actionText :: "log_action \<Rightarrow> string" where
  "actionText Created = ''created''"
| "actionText Updated = ''updated''"
| "actionText Deleted_action = ''deleted''"
| "actionText Restored = ''restored''"

record ProjectLogConfig =
  action :: log_action
  projectId :: "docid option"
  project :: "obj option"
  previousValues :: "obj option"
  newValues :: "obj option"
  reason :: "string option"

definition systemFields :: "string list" where
  "systemFields =
     [''_id'', ''_creationTime'', ''updatedAt'', ''updatedBy'', ''createdAt'', ''createdBy'']"

text \<open>
  The loop \<open>for (const key of allKeys)\<close>: a key in the skip list is passed over; a
  key whose two serialized values differ is pushed on \<open>changedFields\<close>.
\<close>

fun diffLoop :: "string list \<Rightarrow> obj \<Rightarrow> obj \<Rightarrow> string list \<Rightarrow> string list \<Rightarrow> error + string list" where
  "diffLoop skip p n [] changedFields = Inr changedFields"
| "diffLoop skip p n (key # keys) changedFields =
     (if key \<in> set skip then diffLoop skip p n keys changedFields
      else
        (case JSON_stringify (get_field p key) of
           Inl e \<Rightarrow> Inl e
         | Inr pText \<Rightarrow>
             (case JSON_stringify (get_field n key) of
                Inl e \<Rightarrow> Inl e
              | Inr nText \<Rightarrow>
                  if pText \<noteq> nText then diffLoop skip p n keys (changedFields @ [key])
                  else diffLoop skip p n keys changedFields)))"

definition allKeys :: "obj \<Rightarrow> obj \<Rightarrow> string list" where
  "allKeys p n = Set_from (Object_keys p @ Object_keys n)"

text \<open>The "smart summaries" of the project logger.\<close>

definition projectChangeSummary :: "obj \<Rightarrow> obj \<Rightarrow> string list \<Rightarrow> obj" where
  "projectChangeSummary p n changedFields =
     (let s0 = [];
          s1 = (if ''totalBudgetAllocated'' \<in> set changedFields then
                  set_field
                    (set_field (set_field s0 ''budgetChanged'' (JBool True))
                       ''oldBudget'' (get_field p ''totalBudgetAllocated''))
                    ''newBudget'' (get_field n ''totalBudgetAllocated'')
                else s0);
          s2 = (if ''targetDateCompletion'' \<in> set changedFields
                then set_field s1 ''scheduleChanged'' (JBool True) else s1);
          s3 = (if ''projectManagerId'' \<in> set changedFields
                then set_field s2 ''managerChanged'' (JBool True) else s2);
          s4 = (if ''status'' \<in> set changedFields
                then set_field s3 ''statusChanged'' (JBool True) else s3);
          s5 = (if ''categoryId'' \<in> set changedFields
                then set_field s4 ''categoryChanged'' (JBool True) else s4)
      in s5)"

text \<open>
  The diff of the logger: both results are empty unless the action is
  \<open>updated\<close> and both snapshots are given.
\<close>

definition projectDiff :: "ProjectLogConfig \<Rightarrow> error + (string list \<times> obj)" where
  "projectDiff config =
     (case (action config, previousValues config, newValues config) of
        (Updated, Some p, Some n) \<Rightarrow>
          (case diffLoop systemFields p n (allKeys p n) [] of
             Inl e \<Rightarrow> Inl e
           | Inr changedFields \<Rightarrow> Inr (changedFields, projectChangeSummary p n changedFields))
      | _ \<Rightarrow> Inr ([], []))"

definition optStr :: "string option \<Rightarrow> jsval" where
  "optStr s = (case s of None \<Rightarrow> JUndefined | Some t \<Rightarrow> JStr t)"

definition optId :: "docid option \<Rightarrow> jsval" where
  "optId i = (case i of None \<Rightarrow> JUndefined | Some j \<Rightarrow> JId j)"

text \<open>The record that \<open>logProjectActivity\<close> passes to \<open>ctx.db.insert\<close>.\<close>

definition projectActivityRecord ::
    "ProjectLogConfig \<Rightarrow> docid \<Rightarrow> obj \<Rightarrow> obj \<Rightarrow> string list \<Rightarrow> obj \<Rightarrow> jsval \<Rightarrow> jsval \<Rightarrow>
     string option \<Rightarrow> rat \<Rightarrow> obj" where
  "projectActivityRecord config userId user projectData changedFields changeSummary
       prevText newText changedText now =
     [(''action'', JStr (actionText (action config))),
      (''projectId'', optId (projectId config)),
      (''particulars'', js_or (get_field projectData ''particulars'') (JStr ''Unknown Project'')),
      (''implementingOffice'',
         js_or (get_field projectData ''implementingOffice'') (JStr ''Unknown Office'')),
      (''budgetItemId'', get_field projectData ''budgetItemId''),
      (''previousValues'', prevText),
      (''newValues'', newText),
      (''changedFields'', optStr changedText),
      (''changeSummary'',
         (if length (Object_keys changeSummary) > 0 then JObj changeSummary else JUndefined)),
      (''performedBy'', JId userId),
      (''performedByName'', js_or (get_field user ''name'') (JStr ''Unknown'')),
      (''performedByEmail'', js_or (get_field user ''email'') (JStr [])),
      (''performedByRole'', js_or (get_field user ''role'') (JStr ''user'')),
      (''timestamp'', JNum now),
      (''reason'', optStr (reason config))]"

text \<open>The body of the \<open>try\<close> block of \<open>logProjectActivity\<close>.\<close>

definition logProjectActivity_try :: "db \<Rightarrow> docid \<Rightarrow> ProjectLogConfig \<Rightarrow> rat \<Rightarrow> error + db" where
  "logProjectActivity_try d userId config now =
     (case db_get d userId of
        Inl e \<Rightarrow> Inl e
      | Inr None \<Rightarrow> Inr d
      | Inr (Some user) \<Rightarrow>
          let projectData =
                (case project config of Some x \<Rightarrow> x
                 | None \<Rightarrow> (case newValues config of Some x \<Rightarrow> x
                    | None \<Rightarrow> (case previousValues config of Some x \<Rightarrow> x | None \<Rightarrow> [])))
          in
          (case projectDiff config of
             Inl e \<Rightarrow> Inl e
           | Inr (changedFields, changeSummary) \<Rightarrow>
               (case stringifyOpt (previousValues config) of
                  Inl e \<Rightarrow> Inl e
                | Inr prevText \<Rightarrow>
                    (case stringifyOpt (newValues config) of
                       Inl e \<Rightarrow> Inl e
                     | Inr newText \<Rightarrow>
                         (case (if length changedFields > 0
                                then JSON_stringify (JArr (map JStr changedFields))
                                else Inr None) of
                            Inl e \<Rightarrow> Inl e
                          | Inr changedText \<Rightarrow>
                              (case db_insert d ''projectActivities''
                                      (projectActivityRecord config userId user projectData
                                         changedFields changeSummary prevText newText
                                         changedText now)
                                      now of
                                 Inl e \<Rightarrow> Inl e
                               | Inr (d', activityId) \<Rightarrow> Inr d'))))))"

text \<open>
  \<open>logProjectActivity\<close>: whatever the \<open>try\<close> block raises is caught and written to
  the console; the function returns normally, and the store is as it was.
\<close>

definition logProjectActivity :: "db \<Rightarrow> docid \<Rightarrow> ProjectLogConfig \<Rightarrow> rat \<Rightarrow> error + db" where
  "logProjectActivity d userId config now =
     (case logProjectActivity_try d userId config now of
        Inl e \<Rightarrow> Inr d
      | Inr d' \<Rightarrow> Inr d')"

section \<open>The aggregation engine (lib/aggregationUtils)\<close>

datatype aggfun = AggSum | AggAvg | AggMin | AggMax | AggCount

fun aggfunText :: "aggfun \<Rightarrow> string" where
  "aggfunText AggSum = ''sum''"
| "aggfunText AggAvg = ''avg''"
| "aggfunText AggMin = ''min''"
| "aggfunText AggMax = ''max''"
| "aggfunText AggCount = ''count''"

record aggregateField =
  sourceField :: string
  aggregateFunction :: aggfun
  targetValueKey :: string



text \<open>\<open>.map((item) => item[field]).filter((v) => typeof v === "number")\<close>\<close>

definition numericValues :: "obj list \<Rightarrow> string \<Rightarrow> rat list" where
  "numericValues items field =
     List.map_filter (\<lambda>v. case v of JNum r \<Rightarrow> Some r | _ \<Rightarrow> None)
       (map (\<lambda>item. get_field item field) items)"

text \<open>The \<open>switch\<close> on the aggregate function; the result is a number or \<open>undefined\<close>.\<close>

definition aggregateOne :: "obj list \<Rightarrow> aggregateField \<Rightarrow> jsval" where
  "aggregateOne items fieldConfig =
     (case aggregateFunction fieldConfig of
        AggSum \<Rightarrow>
          JNum (foldl (\<lambda>sum item.
                  let v = get_field item (sourceField fieldConfig)
                  in sum + (case v of JNum r \<Rightarrow> r | _ \<Rightarrow> 0)) 0 items)
      | AggAvg \<Rightarrow>
          (let vals = numericValues items (sourceField fieldConfig) in
           if length vals > 0
           then JNum (foldl (\<lambda>sum v. sum + v) 0 vals / of_nat (length vals))
           else JUndefined)
      | AggMin \<Rightarrow>
          (case numericValues items (sourceField fieldConfig) of
             [] \<Rightarrow> JUndefined
           | v # vs \<Rightarrow> JNum (foldl min v vs))
      | AggMax \<Rightarrow>
          (case numericValues items (sourceField fieldConfig) of
             [] \<Rightarrow> JUndefined
           | v # vs \<Rightarrow> JNum (foldl max v vs))
      | AggCount \<Rightarrow>
          JNum (of_nat (length (filter
                  (\<lambda>item. get_field item (sourceField fieldConfig) \<noteq> JNull \<and>
                          get_field item (sourceField fieldConfig) \<noteq> JUndefined) items))))"

definition aggregateName :: "aggregateField \<Rightarrow> string" where
  "aggregateName fieldConfig =
     aggfunText (aggregateFunction fieldConfig) @ ''_'' @ sourceField fieldConfig"

text \<open>
  The body of \<open>config.aggregateFields.forEach\<close>, on the pair of
  \<open>aggregatedValues\<close> and \<open>namedAggregations\<close>.
\<close>

definition aggregateStep :: "obj list \<Rightarrow> obj \<times> obj \<Rightarrow> aggregateField \<Rightarrow> obj \<times> obj" where
  "aggregateStep items acc fieldConfig =
     (let result = aggregateOne items fieldConfig;
          aggregatedValues = set_field (fst acc) (targetValueKey fieldConfig) result;
          namedAggregations =
            (if result \<noteq> JUndefined
             then set_field (snd acc) (aggregateName fieldConfig) result
             else snd acc)
      in (aggregatedValues, namedAggregations))"















section \<open>Argument validators\<close>

text \<open>
  The validators \<open>v.string()\<close>, \<open>v.number()\<close>, \<open>v.id(table)\<close>, \<open>v.literal(s)\<close>,
  \<open>v.union(...)\<close>, \<open>v.optional(...)\<close>, \<open>v.array(...)\<close> and \<open>v.object({...})\<close>.
  Arguments and documents are JSON values: a property that is present does not
  hold \<open>undefined\<close>, and an object has no property that its validator does not
  name.
\<close>

datatype validator =
    VString
  | VNumber
  | VId string
  | VLiteral string
  | VUnion "validator list"
  | VOptional validator
  | VArray validator
  | VObject "(string \<times> validator) list"

fun validates :: "validator \<Rightarrow> jsval \<Rightarrow> bool"
  and validates_fields :: "(string \<times> validator) list \<Rightarrow> obj \<Rightarrow> bool" where
  "validates VString v = (case v of JStr s \<Rightarrow> True | _ \<Rightarrow> False)"
| "validates VNumber v = is_number v"
| "validates (VId tbl) v = (case v of JId i \<Rightarrow> fst i = tbl | _ \<Rightarrow> False)"
| "validates (VLiteral s) v = (v = JStr s)"
| "validates (VUnion ws) v = list_ex (\<lambda>w. validates w v) ws"
| "validates (VOptional w) v = (v = JUndefined \<or> validates w v)"
| "validates (VArray w) v = (case v of JArr xs \<Rightarrow> list_all (validates w) xs | _ \<Rightarrow> False)"
| "validates (VObject fs) v =
     (case v of
        JObj ob \<Rightarrow>
          distinct (map fst ob) \<and>
          list_all (\<lambda>(k, x). x \<noteq> JUndefined \<and> k \<in> set (map fst fs)) ob \<and>
          validates_fields fs ob
      | _ \<Rightarrow> False)"
| "validates_fields [] ob = True"
| "validates_fields ((k, w) # fs) ob = (validates w (get_field ob k) \<and> validates_fields fs ob)"

text \<open>The status validator shared by the mutations of breakdowns.\<close>

definition statusValidator :: validator where
  "statusValidator = VUnion [VLiteral ''completed'', VLiteral ''delayed'', VLiteral ''ongoing'']"

definition createProjectBreakdown_args :: "(string \<times> validator) list" where
  "createProjectBreakdown_args =
     [(''projectName'', VString),
      (''implementingOffice'', VString),
      (''projectId'', VOptional (VId ''projects'')),
      (''municipality'', VOptional VString),
      (''barangay'', VOptional VString),
      (''district'', VOptional VString),
      (''allocatedBudget'', VOptional VNumber),
      (''obligatedBudget'', VOptional VNumber),
      (''budgetUtilized'', VOptional VNumber),
      (''balance'', VOptional VNumber),
      (''status'', VOptional statusValidator),
      (''dateStarted'', VOptional VNumber),
      (''targetDate'', VOptional VNumber),
      (''completionDate'', VOptional VNumber),
      (''remarks'', VOptional VString),
      (''reason'', VOptional VString),
      (''projectTitle'', VOptional VString),
      (''utilizationRate'', VOptional VNumber),
      (''projectAccomplishment'', VOptional VNumber),
      (''reportDate'', VOptional VNumber),
      (''batchId'', VOptional VString),
      (''fundSource'', VOptional VString)]"


definition bulkCreateBreakdowns_args :: "(string \<times> validator) list" where
  "bulkCreateBreakdowns_args =
     [(''breakdowns'', VArray (VObject
        [(''projectName'', VString),
         (''implementingOffice'', VString),
         (''projectId'', VOptional (VId ''projects'')),
         (''municipality'', VOptional VString),
         (''barangay'', VOptional VString),
         (''district'', VOptional VString),
         (''allocatedBudget'', VOptional VNumber),
         (''obligatedBudget'', VOptional VNumber),
         (''budgetUtilized'', VOptional VNumber),
         (''balance'', VOptional VNumber),
         (''status'', VOptional statusValidator),
         (''dateStarted'', VOptional VNumber),
         (''targetDate'', VOptional VNumber),
         (''completionDate'', VOptional VNumber),
         (''remarks'', VOptional VString),
         (''projectTitle'', VOptional VString),
         (''utilizationRate'', VOptional VNumber),
         (''projectAccomplishment'', VOptional VNumber),
         (''reportDate'', VOptional VNumber),
         (''batchId'', VOptional VString),
         (''fundSource'', VOptional VString)])),
      (''reason'', VOptional VString)]"






text \<open>
  \<open>mutation({args, handler})\<close>: the arguments are validated before the handler
  runs. The handler gets the store, the authenticated user if there is one and
  the current time.
\<close>

definition mutation ::
    "(string \<times> validator) list \<Rightarrow> (db \<Rightarrow> docid option \<Rightarrow> rat \<Rightarrow> obj \<Rightarrow> error + (db \<times> obj)) \<Rightarrow>
     db \<Rightarrow> docid option \<Rightarrow> rat \<Rightarrow> obj \<Rightarrow> error + (db \<times> obj)" where
  "mutation argsValidator handler d auth now args =
     (if validates (VObject argsValidator) (JObj args) then handler d auth now args
      else Inl ArgumentValidationError)"

section \<open>The activity logger of breakdowns\<close>

text \<open>\<open>ctx.db.get\<close> gives the document or \<open>null\<close>.\<close>

definition docVal :: "obj option \<Rightarrow> jsval" where
  "docVal x = (case x of None \<Rightarrow> JNull | Some ob \<Rightarrow> JObj ob)"

definition objOf :: "jsval \<Rightarrow> obj option" where
  "objOf v = (case v of JObj ob \<Rightarrow> Some ob | _ \<Rightarrow> None)"

text \<open>
  Modelled from the spec: \<open>lib/govtProjectActivityLogger\<close>
  (\<open>logGovtProjectActivity\<close> and \<open>logBulkGovtProjectActivity\<close>) is imported by
  govtProjects.ts and is not among the sources. The spec (4.3) says: when the
  action is "updated" and both snapshots are supplied, the changed fields are
  the keys of both snapshots, system fields excluded, whose serialized values
  differ; a status-field change yields \<open>statusChanged\<close>; exactly one record is
  written with the actor's identity as resolved at call time, the action, the
  snapshot, the diff and the reason; any error while resolving the actor or
  persisting the record is caught and never re-raised; the bulk variant logs
  one record per item and returns one shared batch identifier. The name of the
  table and the form of the batch identifier are not given by the spec.
\<close>

definition logGovtProjectActivity_try :: "db \<Rightarrow> docid \<Rightarrow> obj \<Rightarrow> rat \<Rightarrow> error + db" where
  "logGovtProjectActivity_try d userId config now =
     (case db_get d userId of
        Inl e \<Rightarrow> Inl e
      | Inr None \<Rightarrow> Inr d
      | Inr (Some user) \<Rightarrow>
          (case (if get_field config ''action'' = JStr ''updated''
                 then (case (objOf (get_field config ''previousValues''),
                             objOf (get_field config ''newValues'')) of
                         (Some p, Some n) \<Rightarrow> diffLoop systemFields p n (allKeys p n) []
                       | _ \<Rightarrow> Inr [])
                 else Inr []) of
             Inl e \<Rightarrow> Inl e
           | Inr changedFields \<Rightarrow>
               (case stringifyOpt (objOf (get_field config ''previousValues'')) of
                  Inl e \<Rightarrow> Inl e
                | Inr prevText \<Rightarrow>
                    (case stringifyOpt (objOf (get_field config ''newValues'')) of
                       Inl e \<Rightarrow> Inl e
                     | Inr newText \<Rightarrow>
                         (case db_insert d ''govtProjectBreakdownActivities''
                            [(''action'', get_field config ''action''),
                             (''breakdownId'', get_field config ''breakdownId''),
                             (''batchId'', get_field config ''batchId''),
                             (''previousValues'', prevText),
                             (''newValues'', newText),
                             (''changedFields'',
                                (if length changedFields > 0 then JArr (map JStr changedFields)
                                 else JUndefined)),
                             (''changeSummary'',
                                (if ''status'' \<in> set changedFields
                                 then JObj [(''statusChanged'', JBool True)] else JUndefined)),
                             (''performedBy'', JId userId),
                             (''performedByName'', js_or (get_field user ''name'') (JStr ''Unknown'')),
                             (''performedByEmail'', js_or (get_field user ''email'') (JStr [])),
                             (''performedByRole'', js_or (get_field user ''role'') (JStr ''user'')),
                             (''timestamp'', JNum now),
                             (''source'', get_field config ''source''),
                             (''reason'', get_field config ''reason'')]
                            now of
                            Inl e \<Rightarrow> Inl e
                          | Inr (d', activityId) \<Rightarrow> Inr d')))))"

definition logGovtProjectActivity :: "db \<Rightarrow> docid \<Rightarrow> obj \<Rightarrow> rat \<Rightarrow> db" where
  "logGovtProjectActivity d userId config now =
     (case logGovtProjectActivity_try d userId config now of
        Inl e \<Rightarrow> d
      | Inr d' \<Rightarrow> d')"

fun logEach :: "db \<Rightarrow> docid \<Rightarrow> obj list \<Rightarrow> rat \<Rightarrow> db" where
  "logEach d userId [] now = d"
| "logEach d userId (config # configs) now =
     logEach (logGovtProjectActivity d userId config now) userId configs now"

definition logBulkGovtProjectActivity ::
    "db \<Rightarrow> docid \<Rightarrow> string \<Rightarrow> obj list \<Rightarrow> obj \<Rightarrow> rat \<Rightarrow> db \<times> string" where
  "logBulkGovtProjectActivity d userId act items meta now =
     (let batchId = ''batch_'' @ Number_toString now;
          configs = map (\<lambda>item. spread (spread [(''action'', JStr act), (''batchId'', JStr batchId)] item)
                                  meta) items
      in (logEach d userId configs now, batchId))"

section \<open>The mutations of breakdowns (govtProjects.ts)\<close>

text \<open>An operation of the store or of the recalculation service on an id held in a value.\<close>

definition db_getVal :: "db \<Rightarrow> jsval \<Rightarrow> error + obj option" where
  "db_getVal d v = (case v of JId i \<Rightarrow> db_get d i | _ \<Rightarrow> Inl StoreError)"



definition recalcVal :: "db \<Rightarrow> jsval \<Rightarrow> docid \<Rightarrow> rat \<Rightarrow> error + db" where
  "recalcVal d v userId now =
     (case v of
        JId p \<Rightarrow>
          (case recalculateProjectMetrics d p userId now of
             Inl e \<Rightarrow> Inl e
           | Inr (d', r) \<Rightarrow> Inr d')
      | _ \<Rightarrow> Inl StoreError)"

text \<open>\<open>for (const projectId of projects) await recalculateProjectMetrics(ctx, projectId, userId)\<close>\<close>

fun recalcEach :: "db \<Rightarrow> jsval list \<Rightarrow> docid \<Rightarrow> rat \<Rightarrow> error + db" where
  "recalcEach d [] userId now = Inr d"
| "recalcEach d (v # vs) userId now =
     (case recalcVal d v userId now of
        Inl e \<Rightarrow> Inl e
      | Inr d' \<Rightarrow> recalcEach d' vs userId now)"

text \<open>
  \<open>if (args.projectId) { const project = await ctx.db.get(args.projectId);
  if (!project) throw new Error("Parent project not found"); }\<close>
\<close>

definition verifyProject :: "db \<Rightarrow> jsval \<Rightarrow> error + unit" where
  "verifyProject d projectIdArg =
     (if truthy projectIdArg then
        (case db_getVal d projectIdArg of
           Inl e \<Rightarrow> Inl e
         | Inr None \<Rightarrow> Inl (Error ''Parent project not found'')
         | Inr (Some p) \<Rightarrow> Inr ())
      else Inr ())"

definition auditFields :: "docid \<Rightarrow> rat \<Rightarrow> obj" where
  "auditFields userId now =
     [(''createdBy'', JId userId), (''createdAt'', JNum now),
      (''updatedAt'', JNum now), (''updatedBy'', JId userId)]"

text \<open>
  \<open>createProjectBreakdown\<close>. The handler is given in two parts: up to the
  insert, and from the reading back of the created breakdown (logging and
  recalculation) on.
\<close>

definition createProjectBreakdown_finish ::
    "db \<Rightarrow> docid \<Rightarrow> rat \<Rightarrow> obj \<Rightarrow> docid \<Rightarrow> error + (db \<times> obj)" where
  "createProjectBreakdown_finish d1 userId now args breakdownId =
     (case db_get d1 breakdownId of
        Inl e \<Rightarrow> Inl e
      | Inr createdBreakdown \<Rightarrow>
          let d2 = logGovtProjectActivity d1 userId
                     [(''action'', JStr ''created''),
                      (''breakdownId'', JId breakdownId),
                      (''breakdown'', docVal createdBreakdown),
                      (''newValues'', docVal createdBreakdown),
                      (''source'', JStr ''web_ui''),
                      (''reason'', get_field args ''reason'')] now
          in
          (case (if truthy (get_field args ''projectId'')
                 then recalcVal d2 (get_field args ''projectId'') userId now
                 else Inr d2) of
             Inl e \<Rightarrow> Inl e
           | Inr d3 \<Rightarrow> Inr (d3, [(''breakdownId'', JId breakdownId)])))"

definition createProjectBreakdown_handler ::
    "db \<Rightarrow> docid option \<Rightarrow> rat \<Rightarrow> obj \<Rightarrow> error + (db \<times> obj)" where
  "createProjectBreakdown_handler d auth now args =
     (case auth of
        None \<Rightarrow> Inl (Error ''Not authenticated'')
      | Some userId \<Rightarrow>
          let breakdownData = rest_without [''reason''] args in
          (case verifyProject d (get_field args ''projectId'') of
             Inl e \<Rightarrow> Inl e
           | Inr ok \<Rightarrow>
               (case db_insert d ''govtProjectBreakdowns''
                       (spread breakdownData (auditFields userId now)) now of
                  Inl e \<Rightarrow> Inl e
                | Inr (d1, breakdownId) \<Rightarrow>
                    createProjectBreakdown_finish d1 userId now args breakdownId)))"

definition createProjectBreakdown ::
    "db \<Rightarrow> docid option \<Rightarrow> rat \<Rightarrow> obj \<Rightarrow> error + (db \<times> obj)" where
  "createProjectBreakdown = mutation createProjectBreakdown_args createProjectBreakdown_handler"





text \<open>
  The end of each bulk mutation, the same in the three of them: the bulk
  logging, one recalculation for each affected project, and the result
  \<open>{count, ids, batchId, affectedProjects}\<close>.
\<close>

definition bulkFinish ::
    "db \<Rightarrow> docid \<Rightarrow> rat \<Rightarrow> string \<Rightarrow> obj list \<Rightarrow> obj \<Rightarrow> jsval list \<Rightarrow> jsval list \<Rightarrow>
     error + (db \<times> obj)" where
  "bulkFinish d1 userId now act items meta ids affectedProjects =
     (case logBulkGovtProjectActivity d1 userId act items meta now of
        (d2, batchId) \<Rightarrow>
          (case recalcEach d2 affectedProjects userId now of
             Inl e \<Rightarrow> Inl e
           | Inr d3 \<Rightarrow>
               Inr (d3,
                 [(''count'', JNum (of_nat (length ids))),
                  (''ids'', JArr ids),
                  (''batchId'', JStr batchId),
                  (''affectedProjects'', JNum (of_nat (length affectedProjects)))])))"

text \<open>The loop \<open>for (const breakdown of args.breakdowns)\<close> of the bulk create.\<close>

fun bulkCreate_loop ::
    "db \<Rightarrow> docid \<Rightarrow> rat \<Rightarrow> jsval list \<Rightarrow> (docid \<times> jsval) list \<Rightarrow> jsval list \<Rightarrow>
     error + (db \<times> (docid \<times> jsval) list \<times> jsval list)" where
  "bulkCreate_loop d userId now [] insertedRecords affectedProjects =
     Inr (d, insertedRecords, affectedProjects)"
| "bulkCreate_loop d userId now (b # bs) insertedRecords affectedProjects =
     (case b of
        JObj breakdown \<Rightarrow>
          (case db_insert d ''govtProjectBreakdowns''
                  (spread breakdown (auditFields userId now)) now of
             Inl e \<Rightarrow> Inl e
           | Inr (d1, breakdownId) \<Rightarrow>
               (case db_get d1 breakdownId of
                  Inl e \<Rightarrow> Inl e
                | Inr createdBreakdown \<Rightarrow>
                    bulkCreate_loop d1 userId now bs
                      (insertedRecords @ [(breakdownId, docVal createdBreakdown)])
                      (if truthy (get_field breakdown ''projectId'')
                       then Set_add affectedProjects (get_field breakdown ''projectId'')
                       else affectedProjects)))
      | other \<Rightarrow> Inl TypeError)"

definition bulkCreateBreakdowns_handler ::
    "db \<Rightarrow> docid option \<Rightarrow> rat \<Rightarrow> obj \<Rightarrow> error + (db \<times> obj)" where
  "bulkCreateBreakdowns_handler d auth now args =
     (case auth of
        None \<Rightarrow> Inl (Error ''Not authenticated'')
      | Some userId \<Rightarrow>
          (case get_field args ''breakdowns'' of
             JArr breakdowns \<Rightarrow>
               (case bulkCreate_loop d userId now breakdowns [] [] of
                  Inl e \<Rightarrow> Inl e
                | Inr (d1, insertedRecords, affectedProjects) \<Rightarrow>
                    bulkFinish d1 userId now ''bulk_created''
                      (map (\<lambda>(i, b). [(''breakdownId'', JId i), (''breakdown'', b),
                                       (''newValues'', b)]) insertedRecords)
                      [(''source'', JStr ''bulk_import''),
                       (''reason'', js_or (get_field args ''reason'') (JStr ''Excel import''))]
                      (map (\<lambda>(i, b). JId i) insertedRecords)
                      affectedProjects)
           | other \<Rightarrow> Inl TypeError))"

definition bulkCreateBreakdowns ::
    "db \<Rightarrow> docid option \<Rightarrow> rat \<Rightarrow> obj \<Rightarrow> error + (db \<times> obj)" where
  "bulkCreateBreakdowns = mutation bulkCreateBreakdowns_args bulkCreateBreakdowns_handler"







text \<open>The recalculation calls recorded in a trace.\<close>

definition recalcCalls :: "event list \<Rightarrow> docid list" where
  "recalcCalls evs = List.map_filter (\<lambda>ev. case ev of Recalculated p \<Rightarrow> Some p | _ \<Rightarrow> None) evs"





text \<open>
  Two stores that differ at most by activity records appended by the logger of
  breakdowns: the same faults, the same recalculation calls, and the same
  documents in every other table.
\<close>

definition sameButActivities :: "db \<Rightarrow> db \<Rightarrow> bool" where
  "sameButActivities d d' \<longleftrightarrow>
     faults d' = faults d \<and>
     recalcCalls (trace d') = recalcCalls (trace d) \<and>
     (\<exists>new. docs d' = docs d @ new \<and>
            list_all (\<lambda>(i, ob). fst i = ''govtProjectBreakdownActivities'') new)"

section \<open>A small store used in the examples\<close>

definition exampleDb :: db where
  "exampleDb =
     \<lparr>docs =
        [((''users'', 0),
            [(''_id'', JId (''users'', 0)), (''_creationTime'', JNum 1),
             (''name'', JStr ''Ana''), (''email'', JStr ''ana@ppdo.ph''), (''role'', JStr ''admin'')]),
         ((''projects'', 1),
            [(''_id'', JId (''projects'', 1)), (''_creationTime'', JNum 2),
             (''particulars'', JStr ''Roads''),
             (''projectCompleted'', JNum 0), (''projectDelayed'', JNum 0),
             (''projectsOnTrack'', JNum 0)]),
         ((''govtProjectBreakdowns'', 2),
            [(''_id'', JId (''govtProjectBreakdowns'', 2)), (''_creationTime'', JNum 3),
             (''projectName'', JStr ''Road A''), (''implementingOffice'', JStr ''PEO''),
             (''projectId'', JId (''projects'', 1)), (''status'', JStr ''ongoing'')]),
         ((''govtProjectBreakdowns'', 3),
            [(''_id'', JId (''govtProjectBreakdowns'', 3)), (''_creationTime'', JNum 4),
             (''projectName'', JStr ''Road B''), (''implementingOffice'', JStr ''PEO''),
             (''projectId'', JId (''projects'', 1)), (''status'', JStr ''completed'')]),
         ((''govtProjectBreakdowns'', 4),
            [(''_id'', JId (''govtProjectBreakdowns'', 4)), (''_creationTime'', JNum 5),
             (''projectName'', JStr ''Road C''), (''implementingOffice'', JStr ''PEO''),
             (''projectId'', JId (''projects'', 1)), (''status'', JStr ''On-Hold'')]),
         ((''govtProjectBreakdowns'', 5),
            [(''_id'', JId (''govtProjectBreakdowns'', 5)), (''_creationTime'', JNum 6),
             (''projectName'', JStr ''Road D''), (''implementingOffice'', JStr ''PEO''),
             (''projectId'', JId (''projects'', 1)), (''status'', JStr ''delayed'')]),
         ((''govtProjectBreakdowns'', 6),
            [(''_id'', JId (''govtProjectBreakdowns'', 6)), (''_creationTime'', JNum 7),
             (''projectName'', JStr ''Road E''), (''implementingOffice'', JStr ''PEO''),
             (''projectId'', JId (''projects'', 1))])],
      nextId = 7,
      faults = {},
      trace = []\<rparr>"

text \<open>An update of the status of a project, as given to the logger.\<close>

definition statusUpdate :: ProjectLogConfig where
  "statusUpdate =
     \<lparr>action = Updated,
      projectId = Some (''projects'', 1),
      project = None,
      previousValues = Some [(''status'', JStr ''ongoing'')],
      newValues = Some [(''status'', JStr ''completed'')],
      reason = None\<rparr>"





text \<open>A breakdown whose parent project does not exist.\<close>

definition danglingBreakdown :: obj where
  "danglingBreakdown =
     [(''projectName'', JStr ''Bridge''), (''implementingOffice'', JStr ''PEO''),
      (''projectId'', JId (''projects'', 99))]"





definition danglingBulk :: obj where
  "danglingBulk = [(''breakdowns'', JArr [JObj danglingBreakdown])]"

definition afterDanglingLoop :: "error + (db \<times> (docid \<times> jsval) list \<times> jsval list)" where
  "afterDanglingLoop = bulkCreate_loop exampleDb (''users'', 0) 10 [JObj danglingBreakdown] [] []"




section \<open>Properties of the recalculation service\<close>

lemma foldl_countStatus:
  "foldl countStatus acc bs =
     \<lparr>completed = completed acc + withStatus ''completed'' bs,
      delayed = delayed acc + withStatus ''delayed'' bs,
      onTrack = onTrack acc + withStatus ''ongoing'' bs\<rparr>"
  by (induction bs arbitrary: acc) (simp_all add: countStatus_def withStatus_def Let_def)

lemma childrenOf_trace [simp]: "childrenOf (d\<lparr>trace := t\<rparr>) p = childrenOf d p"
  by (simp add: childrenOf_def table_docs_def)

lemma recalc_unfold:
  "recalculateProjectMetrics d p u now =
     (if (DbQuery, ''govtProjectBreakdowns'') \<in> faults d then Inl StoreError
      else case db_patch (d\<lparr>trace := trace d @ [Recalculated p]\<rparr>) p
                  (metricsPatch (withStatus ''completed'' (childrenOf d p))
                     (withStatus ''delayed'' (childrenOf d p))
                     (withStatus ''ongoing'' (childrenOf d p)) now u) of
             Inl e \<Rightarrow> Inl e
           | Inr d' \<Rightarrow> Inr (d', \<lparr>completed = withStatus ''completed'' (childrenOf d p),
                  delayed = withStatus ''delayed'' (childrenOf d p),
                  onTrack = withStatus ''ongoing'' (childrenOf d p),
                  breakdownsCount = length (childrenOf d p)\<rparr>))"
proof (cases "(DbQuery, ''govtProjectBreakdowns'') \<in> faults d")
  case True
  then show ?thesis by (simp add: recalculateProjectMetrics_def db_query_eq_def Let_def)
next
  case False
  let ?d = "d\<lparr>trace := trace d @ [Recalculated p]\<rparr>"
  from False have q: "db_query_eq ?d ''govtProjectBreakdowns'' ''projectId'' (JId p) = Inr (childrenOf d p)"
    by (simp add: db_query_eq_def childrenOf_def table_docs_def)
  show ?thesis
  proof (cases "childrenOf d p = []")
    case True
    then show ?thesis using False
      by (simp add: recalculateProjectMetrics_def q withStatus_def Let_def split: sum.splits)
  next
    case nonempty: False
    then show ?thesis using False
      by (simp add: recalculateProjectMetrics_def q foldl_countStatus Let_def split: sum.splits)
  qed
qed

lemma recognized_split:
  "length (filter recognizedStatus bs) =
     withStatus ''completed'' bs + withStatus ''delayed'' bs + withStatus ''ongoing'' bs"
  by (induction bs) (auto simp add: recognizedStatus_def withStatus_def)

lemma map_of_patched:
  "map_of (map (\<lambda>(j, ob). if j = i then (j, h ob) else (j, ob)) xs) k =
     (if k = i then map_option h (map_of xs k) else map_of xs k)"
  by (induction xs) auto

lemma count_patched:
  assumes "\<And>ob. Q (h ob) = Q ob"
  shows "length (filter Q (map snd (filter (\<lambda>(j, ob). fst j = tbl)
             (map (\<lambda>(j, ob). if j = i then (j, h ob) else (j, ob)) xs)))) =
         length (filter Q (map snd (filter (\<lambda>(j, ob). fst j = tbl) xs)))"
proof (induction xs)
  case Nil
  show ?case by simp
next
  case (Cons x xs)
  obtain j ob where x: "x = (j, ob)" by (cases x)
  show ?case using Cons.IH by (simp add: x assms)
qed

lemma db_patch_Inr:
  assumes "db_patch d i flds = Inr d'"
  shows "docs d' = map (\<lambda>(j, ob). if j = i then (j, patch_doc ob flds) else (j, ob)) (docs d)"
    and "faults d' = faults d"
    and "nextId d' = nextId d"
    and "trace d' = trace d @ [Patched i]"
    and "(DbPatch, fst i) \<notin> faults d"
    and "\<exists>old. lookup_doc d i = Some old \<and> lookup_doc d' i = Some (patch_doc old flds)"
  using assms
  by (auto simp add: db_patch_def lookup_doc_def map_of_patched split: if_splits option.splits)

lemma get_field_metricsPatch:
  "k \<notin> {''projectCompleted'', ''projectDelayed'', ''projectsOnTrack'', ''updatedAt'', ''updatedBy''} \<Longrightarrow>
   get_field (patch_doc ob (metricsPatch c dl t now u)) k = get_field ob k"
  by (simp add: get_field_def patch_doc_def metricsPatch_def update_conv')

lemma counters_metricsPatch:
  "get_field (patch_doc ob (metricsPatch c dl t now u)) ''projectCompleted'' = JNum (of_nat c)"
  "get_field (patch_doc ob (metricsPatch c dl t now u)) ''projectDelayed'' = JNum (of_nat dl)"
  "get_field (patch_doc ob (metricsPatch c dl t now u)) ''projectsOnTrack'' = JNum (of_nat t)"
  by (simp_all add: get_field_def patch_doc_def metricsPatch_def update_conv')

text \<open>A patch of the metrics leaves every count over the children as it was.\<close>

lemma children_count_after_patch:
  assumes "db_patch d i (metricsPatch c dl t now u) = Inr d'"
  shows "withStatus s (childrenOf d' p) = withStatus s (childrenOf d p)"
    and "length (childrenOf d' p) = length (childrenOf d p)"
proof -
  let ?h = "\<lambda>ob. patch_doc ob (metricsPatch c dl t now u)"
  have docs': "docs d' = map (\<lambda>(j, ob). if j = i then (j, ?h ob) else (j, ob)) (docs d)"
    by (rule db_patch_Inr(1) [OF assms])
  have keep: "get_field (?h ob) ''projectId'' = get_field ob ''projectId''"
             "get_field (?h ob) ''status'' = get_field ob ''status''" for ob
    by (simp_all add: get_field_metricsPatch)
  have "length (filter (\<lambda>ob. get_field ob ''projectId'' = JId p \<and> get_field ob ''status'' = JStr s)
           (table_docs d' ''govtProjectBreakdowns'')) =
        length (filter (\<lambda>ob. get_field ob ''projectId'' = JId p \<and> get_field ob ''status'' = JStr s)
           (table_docs d ''govtProjectBreakdowns''))"
    unfolding table_docs_def docs' by (rule count_patched) (simp add: keep)
  then show "withStatus s (childrenOf d' p) = withStatus s (childrenOf d p)"
    by (simp add: withStatus_def childrenOf_def conj_commute)
  have "length (filter (\<lambda>ob. get_field ob ''projectId'' = JId p)
           (table_docs d' ''govtProjectBreakdowns'')) =
        length (filter (\<lambda>ob. get_field ob ''projectId'' = JId p)
           (table_docs d ''govtProjectBreakdowns''))"
    unfolding table_docs_def docs' by (rule count_patched) (simp add: keep)
  then show "length (childrenOf d' p) = length (childrenOf d p)"
    by (simp add: childrenOf_def)
qed

lemma counters_after_patch:
  assumes "db_patch d p (metricsPatch c dl t now u) = Inr d'"
  shows "storedCounters d' p = Some (JNum (of_nat c), JNum (of_nat dl), JNum (of_nat t))"
  using db_patch_Inr(6) [OF assms] by (auto simp add: storedCounters_def counters_metricsPatch)

text \<open>What a successful recalculation returns and leaves behind.\<close>

lemma recalc_Inr:
  assumes "recalculateProjectMetrics d p u now = Inr (d', r)"
  shows "(DbQuery, ''govtProjectBreakdowns'') \<notin> faults d"
    and "db_patch (d\<lparr>trace := trace d @ [Recalculated p]\<rparr>) p
           (metricsPatch (withStatus ''completed'' (childrenOf d p))
              (withStatus ''delayed'' (childrenOf d p))
              (withStatus ''ongoing'' (childrenOf d p)) now u) = Inr d'"
    and "r = \<lparr>completed = withStatus ''completed'' (childrenOf d p),
              delayed = withStatus ''delayed'' (childrenOf d p),
              onTrack = withStatus ''ongoing'' (childrenOf d p),
              breakdownsCount = length (childrenOf d p)\<rparr>"
  using assms by (simp_all add: recalc_unfold split: if_splits sum.splits)

text \<open>
  C1. After a successful call of \<open>recalculateProjectMetrics\<close> for a project, each
  of the three stored counters of the project is the number of its breakdowns
  with the matching status, and their sum is the number of its breakdowns whose
  status is one of "completed", "delayed" and "ongoing"; a breakdown with no
  status or another status is in no bucket.
\<close>

theorem recalc_counters_match_children:
  assumes "recalculateProjectMetrics d p u now = Inr (d', r)"
  shows "\<exists>c dl t. storedCounters d' p = Some (JNum (of_nat c), JNum (of_nat dl), JNum (of_nat t))
           \<and> c = withStatus ''completed'' (childrenOf d' p)
           \<and> dl = withStatus ''delayed'' (childrenOf d' p)
           \<and> t = withStatus ''ongoing'' (childrenOf d' p)
           \<and> c + dl + t = length (filter recognizedStatus (childrenOf d' p))"
proof -
  let ?c = "withStatus ''completed'' (childrenOf d p)"
  let ?dl = "withStatus ''delayed'' (childrenOf d p)"
  let ?t = "withStatus ''ongoing'' (childrenOf d p)"
  note patch = recalc_Inr(2) [OF assms]
  have "storedCounters d' p = Some (JNum (of_nat ?c), JNum (of_nat ?dl), JNum (of_nat ?t))"
    by (rule counters_after_patch [OF patch])
  moreover have "withStatus s (childrenOf d' p) = withStatus s (childrenOf d p)" for s
    using children_count_after_patch(1) [OF patch] by simp
  ultimately show ?thesis
    by (simp add: recognized_split)
qed

theorem recalc_counters_match_children_witness:
  "\<exists>d' r. recalculateProjectMetrics exampleDb (''projects'', 1) (''users'', 0) 10 = Inr (d', r)
      \<and> storedCounters d' (''projects'', 1) = Some (JNum 1, JNum 1, JNum 1)
      \<and> length (filter recognizedStatus (childrenOf d' (''projects'', 1))) = 3
      \<and> length (childrenOf d' (''projects'', 1)) = 5"
proof -
  obtain d' r where run:
    "recalculateProjectMetrics exampleDb (''projects'', 1) (''users'', 0) 10 = Inr (d', r)"
    by (simp add: recalc_unfold db_patch_def lookup_doc_def exampleDb_def)
  note patch = recalc_Inr(2) [OF run]
  have same: "withStatus s (childrenOf d' (''projects'', 1)) =
              withStatus s (childrenOf exampleDb (''projects'', 1))"
             "length (childrenOf d' (''projects'', 1)) =
              length (childrenOf exampleDb (''projects'', 1))" for s
    using children_count_after_patch [OF patch] by simp_all
  have counts: "withStatus ''completed'' (childrenOf exampleDb (''projects'', 1)) = 1"
               "withStatus ''delayed'' (childrenOf exampleDb (''projects'', 1)) = 1"
               "withStatus ''ongoing'' (childrenOf exampleDb (''projects'', 1)) = 1"
               "length (childrenOf exampleDb (''projects'', 1)) = 5"
    by (simp_all add: childrenOf_def withStatus_def table_docs_def exampleDb_def get_field_def)
  from recalc_counters_match_children [OF run] show ?thesis
    using run same counts by auto
qed

text \<open>
  C9. The recalculation is idempotent: after a successful call, a second call
  for the same project (by any user, at any time, with no other change of the
  store in between) succeeds, returns the same counts and leaves the three
  stored counters of the project as they are.
\<close>

theorem recalc_idempotent:
  assumes "recalculateProjectMetrics d p u now = Inr (d1, r1)"
  shows "\<exists>d2. recalculateProjectMetrics d1 p u' now' = Inr (d2, r1)
           \<and> storedCounters d2 p = storedCounters d1 p"
proof -
  let ?c = "withStatus ''completed'' (childrenOf d p)"
  let ?dl = "withStatus ''delayed'' (childrenOf d p)"
  let ?t = "withStatus ''ongoing'' (childrenOf d p)"
  note nofault = recalc_Inr(1) [OF assms]
  note patch = recalc_Inr(2) [OF assms]
  note r1 = recalc_Inr(3) [OF assms]
  have same: "withStatus s (childrenOf d1 p) = withStatus s (childrenOf d p)"
             "length (childrenOf d1 p) = length (childrenOf d p)" for s
    using children_count_after_patch [OF patch] by simp_all
  have faults1: "faults d1 = faults d"
    using db_patch_Inr(2) [OF patch] by simp
  have c1: "storedCounters d1 p = Some (JNum (of_nat ?c), JNum (of_nat ?dl), JNum (of_nat ?t))"
    by (rule counters_after_patch [OF patch])
  obtain ob where ob: "lookup_doc d1 p = Some ob"
    using db_patch_Inr(6) [OF patch] by blast
  have nopatchfault: "(DbPatch, fst p) \<notin> faults d1"
    using db_patch_Inr(5) [OF patch] faults1 by simp
  obtain d2 where d2: "db_patch (d1\<lparr>trace := trace d1 @ [Recalculated p]\<rparr>) p
                          (metricsPatch ?c ?dl ?t now' u') = Inr d2"
    using ob nopatchfault by (simp add: db_patch_def lookup_doc_def)
  have "recalculateProjectMetrics d1 p u' now' = Inr (d2, r1)"
    using nofault faults1 d2 by (simp add: recalc_unfold same r1)
  moreover have "storedCounters d2 p = storedCounters d1 p"
    using counters_after_patch [OF d2] c1 by simp
  ultimately show ?thesis by blast
qed

theorem recalc_idempotent_witness:
  "\<exists>d1 r1 d2. recalculateProjectMetrics exampleDb (''projects'', 1) (''users'', 0) 10 = Inr (d1, r1)
      \<and> recalculateProjectMetrics d1 (''projects'', 1) (''users'', 0) 11 = Inr (d2, r1)
      \<and> storedCounters d2 (''projects'', 1) = storedCounters d1 (''projects'', 1)"
proof -
  obtain d1 r1 where run:
    "recalculateProjectMetrics exampleDb (''projects'', 1) (''users'', 0) 10 = Inr (d1, r1)"
    by (simp add: recalc_unfold db_patch_def lookup_doc_def exampleDb_def)
  from recalc_idempotent [OF run, of "(''users'', 0)" 11] show ?thesis
    using run by blast
qed

section \<open>Properties of the project activity logger\<close>


lemma Set_add_foldl:
  "set (foldl Set_add acc xs) = set acc \<union> set xs"
  by (induction xs arbitrary: acc) (auto simp add: Set_add_def)

lemma Set_add_foldl_distinct:
  "distinct acc \<Longrightarrow> distinct (foldl Set_add acc xs)"
  by (induction xs arbitrary: acc) (auto simp add: Set_add_def)

lemma set_Set_from [simp]: "set (Set_from xs) = set xs"
  by (simp add: Set_from_def Set_add_foldl)

lemma distinct_Set_from [simp]: "distinct (Set_from xs)"
  by (simp add: Set_from_def Set_add_foldl_distinct)


lemma stringify_items_strings:
  "stringify_items (map JStr ks) = Inr (map quoteJSONString ks)"
  by (induction ks) simp_all

lemma stringify_string_array:
  "JSON_stringify (JArr (map JStr ks)) =
     Inr (Some (''['' @ joinWith '','' (map quoteJSONString ks) @ '']''))"
  by (simp add: stringify_items_strings)



text \<open>What the \<open>try\<close> block does when it does not fail.\<close>

lemma logProjectActivity_try_Inr:
  assumes "logProjectActivity_try d userId config now = Inr d'"
  shows "d' = d \<or>
         (\<exists>doc. d' = d\<lparr>docs := docs d @ [((''projectActivities'', nextId d), doc)],
                         nextId := Suc (nextId d),
                         trace := trace d @ [Inserted (''projectActivities'', nextId d)]\<rparr>)"
  using assms
  by (auto simp add: logProjectActivity_try_def db_insert_def Let_def
      split: sum.splits option.splits prod.splits if_splits)











text \<open>
  C3. \<open>logProjectActivity\<close> returns normally on every input: when the actor
  does not resolve to a user, when reading the actor fails and when the insert
  of the activity record fails, the call returns with the store as it was. In
  every case the documents of all tables other than \<open>projectActivities\<close> are
  untouched, so what the calling mutation wrote does not depend on the outcome
  of the logging.
\<close>

theorem logProjectActivity_never_raises:
  "(\<exists>d'. logProjectActivity d userId config now = Inr d'
       \<and> (\<forall>tbl. tbl \<noteq> ''projectActivities'' \<longrightarrow> table_docs d' tbl = table_docs d tbl)
       \<and> (\<forall>i. fst i \<noteq> ''projectActivities'' \<longrightarrow> lookup_doc d' i = lookup_doc d i))
   \<and> (db_get d userId = Inr None \<longrightarrow> logProjectActivity d userId config now = Inr d)
   \<and> (db_get d userId = Inl StoreError \<longrightarrow> logProjectActivity d userId config now = Inr d)
   \<and> ((DbInsert, ''projectActivities'') \<in> faults d \<longrightarrow>
        logProjectActivity d userId config now = Inr d)"
proof (intro conjI impI)
  show "\<exists>d'. logProjectActivity d userId config now = Inr d'
       \<and> (\<forall>tbl. tbl \<noteq> ''projectActivities'' \<longrightarrow> table_docs d' tbl = table_docs d tbl)
       \<and> (\<forall>i. fst i \<noteq> ''projectActivities'' \<longrightarrow> lookup_doc d' i = lookup_doc d i)"
  proof (cases "logProjectActivity_try d userId config now")
    case (Inl e)
    then show ?thesis by (simp add: logProjectActivity_def)
  next
    case (Inr d')
    from logProjectActivity_try_Inr [OF Inr] have
      "(\<forall>tbl. tbl \<noteq> ''projectActivities'' \<longrightarrow> table_docs d' tbl = table_docs d tbl)
       \<and> (\<forall>i. fst i \<noteq> ''projectActivities'' \<longrightarrow> lookup_doc d' i = lookup_doc d i)"
      by (auto simp add: table_docs_def lookup_doc_def map_add_def split: option.splits)
    with Inr show ?thesis by (simp add: logProjectActivity_def)
  qed
next
  assume "db_get d userId = Inr None"
  then show "logProjectActivity d userId config now = Inr d"
    by (simp add: logProjectActivity_def logProjectActivity_try_def)
next
  assume "db_get d userId = Inl StoreError"
  then show "logProjectActivity d userId config now = Inr d"
    by (simp add: logProjectActivity_def logProjectActivity_try_def)
next
  assume fault: "(DbInsert, ''projectActivities'') \<in> faults d"
  show "logProjectActivity d userId config now = Inr d"
  proof (cases "logProjectActivity_try d userId config now")
    case (Inl e)
    then show ?thesis by (simp add: logProjectActivity_def)
  next
    case (Inr d')
    then have "d' = d"
      using fault
      by (auto simp add: logProjectActivity_try_def db_insert_def Let_def
          split: sum.splits option.splits prod.splits if_splits)
    with Inr show ?thesis by (simp add: logProjectActivity_def)
  qed
qed

theorem logProjectActivity_never_raises_witness:
  "logProjectActivity (exampleDb\<lparr>faults := {(DbInsert, ''projectActivities'')}\<rparr>)
      (''users'', 0) statusUpdate 10
     = Inr (exampleDb\<lparr>faults := {(DbInsert, ''projectActivities'')}\<rparr>)
   \<and> logProjectActivity exampleDb (''users'', 9) statusUpdate 10 = Inr exampleDb
   \<and> logProjectActivity (exampleDb\<lparr>faults := {(DbGet, ''users'')}\<rparr>)
        (''users'', 0) statusUpdate 10
     = Inr (exampleDb\<lparr>faults := {(DbGet, ''users'')}\<rparr>)"
proof -
  have a: "(DbInsert, ''projectActivities'') \<in>
             faults (exampleDb\<lparr>faults := {(DbInsert, ''projectActivities'')}\<rparr>)"
    by simp
  have b: "db_get exampleDb (''users'', 9) = Inr None"
    by (simp add: db_get_def lookup_doc_def exampleDb_def)
  have c: "db_get (exampleDb\<lparr>faults := {(DbGet, ''users'')}\<rparr>) (''users'', 0) = Inl StoreError"
    by (simp add: db_get_def)
  show ?thesis
    using logProjectActivity_never_raises
            [of "exampleDb\<lparr>faults := {(DbInsert, ''projectActivities'')}\<rparr>"
                "(''users'', 0)" statusUpdate 10]
          logProjectActivity_never_raises [of exampleDb "(''users'', 9)" statusUpdate 10]
          logProjectActivity_never_raises
            [of "exampleDb\<lparr>faults := {(DbGet, ''users'')}\<rparr>" "(''users'', 0)" statusUpdate 10]
          a b c
    by blast
qed





section \<open>Properties of the aggregation engine\<close>










lemma foldl_aggregateStep_snoc:
  "foldl (aggregateStep items) acc (flds @ [fc]) =
     aggregateStep items (foldl (aggregateStep items) acc flds) fc"
  by simp







































section \<open>Properties of the mutations of breakdowns\<close>












text \<open>The recalculation calls of a trace.\<close>

lemma recalcCalls_append [simp]:
  "recalcCalls (xs @ ys) = recalcCalls xs @ recalcCalls ys"
  by (simp add: recalcCalls_def map_filter_def)

lemma recalcCalls_simps [simp]:
  "recalcCalls [] = []"
  "recalcCalls (Inserted i # evs) = recalcCalls evs"
  "recalcCalls (Patched i # evs) = recalcCalls evs"
  "recalcCalls (Deleted i # evs) = recalcCalls evs"
  "recalcCalls (Recalculated i # evs) = i # recalcCalls evs"
  by (simp_all add: recalcCalls_def map_filter_def)

text \<open>The logger of breakdowns only appends activity records.\<close>

lemma sameButActivities_refl [simp]: "sameButActivities d d"
  by (simp add: sameButActivities_def)




























text \<open>
  C8 fails on the code. For a breakdown whose \<open>projectId\<close> names no project,
  \<open>createProjectBreakdown\<close> fails with "Parent project not found" before it
  inserts anything; the loop of \<open>bulkCreateBreakdowns\<close> inserts the row with
  the dangling link, and the call fails only afterwards, with the store's
  error, when the recalculation patches the missing project.
\<close>

theorem bulk_create_skips_parent_check:
  "lookup_doc exampleDb (''projects'', 99) = None
   \<and> createProjectBreakdown exampleDb (Some (''users'', 0)) 10 danglingBreakdown =
       Inl (Error ''Parent project not found'')
   \<and> \<not> isl afterDanglingLoop
   \<and> map_option (\<lambda>row. get_field row ''projectId'')
        (lookup_doc (fst (projr afterDanglingLoop)) (''govtProjectBreakdowns'', 7)) =
       Some (JId (''projects'', 99))
   \<and> bulkCreateBreakdowns exampleDb (Some (''users'', 0)) 10 danglingBulk = Inl StoreError"
  by code_simp

theorem bulk_create_skips_parent_check_witness:
  "bulkCreateBreakdowns exampleDb (Some (''users'', 0)) 10 danglingBulk \<noteq>
     Inl (Error ''Parent project not found'')"
  using bulk_create_skips_parent_check by simp



text \<open>The loops of the bulk mutations: what they track.\<close>

lemma Set_add_set [simp]: "set (Set_add s x) = insert x (set s)"
  by (auto simp add: Set_add_def)

lemma Set_add_distinct [simp]: "distinct s \<Longrightarrow> distinct (Set_add s x)"
  by (simp add: Set_add_def)















end
